theory Spec2Isabelle
  imports Main
begin

section \<open>Data model (types/Messages.ts)\<close>

text \<open>
  The three roles of the application. The role the specification calls
  \<open>publisher-multi\<close> is \<open>hospital\<close> in the code.
\<close>

datatype UserRole = Regular | Hospital | Technician

text \<open>
  One element of \<open>User.tracks.cameras\<close>. The optional field \<open>trackName?: string\<close>
  is an \<open>option\<close>: \<open>None\<close> is JavaScript's \<open>undefined\<close>.
\<close>

record CameraSlot =
  deviceId :: string
  trackName :: "string option"
  enabled :: bool

record Tracks =
  audio :: "string option"
  audioEnabled :: "bool option"
  audioUnavailable :: bool
  video :: "string option"
  videoEnabled :: "bool option"
  screenshare :: "string option"
  screenShareEnabled :: "bool option"
  cameras :: "CameraSlot list option"

text \<open>
  The type \<open>User\<close>. The field \<open>id\<close> of the source is \<open>user_id\<close> here, since
  \<open>id\<close> is the identity function of HOL.
\<close>

record User =
  user_id :: string
  name :: string
  transceiverSessionId :: "string option"
  raisedHand :: bool
  speaking :: bool
  joined :: bool
  role :: "UserRole option"
  tracks :: Tracks

text \<open>
  JavaScript truthiness of a value of type \<open>string | undefined\<close>, as tested by
  \<open>a && b\<close> and \<open>if (a)\<close>: \<open>undefined\<close> and the empty string are falsy, every
  other string is truthy.
\<close>

definition truthy :: "string option \<Rightarrow> bool" where
  "truthy v = (case v of None \<Rightarrow> False | Some s \<Rightarrow> s \<noteq> [])"

section \<open>Track identifiers\<close>

subsection \<open>Building an identifier (routes/_room.$roomName.hospital.tsx, line 215)\<close>

text \<open>
  The hospital station stores \<open>`${pushedTrack.sessionId}/${pushedTrack.trackName}`\<close>
  as the identifier of a pushed camera track. The template literal checks nothing.
\<close>

definition trackIdentifier :: "string \<Rightarrow> string \<Rightarrow> string" where
  "trackIdentifier sid tname = sid @ ''/'' @ tname"

subsection \<open>Parsing an identifier (hooks/usePulledVideoTrack.tsx, lines 69 to 92)\<close>

text \<open>
  \<open>String.prototype.split\<close> with a one-character separator and no limit: the
  string is cut at every occurrence of the separator, and the pieces, empty ones
  included, are returned in order. \<open>split_from sep cur cs\<close> holds the piece being
  read in \<open>cur\<close>.
\<close>

fun split_from :: "char \<Rightarrow> string \<Rightarrow> string \<Rightarrow> string list" where
  "split_from sep cur [] = [cur]"
| "split_from sep cur (c # cs) =
     (if c = sep then cur # split_from sep [] cs else split_from sep (cur @ [c]) cs)"

definition split :: "char \<Rightarrow> string \<Rightarrow> string list" where
  "split sep s = split_from sep [] s"

text \<open>
  Array destructuring \<open>const [a, b] = parts\<close> reads index 0 and index 1; an index
  past the end gives \<open>undefined\<close>.
\<close>

fun element :: "'a list \<Rightarrow> nat \<Rightarrow> 'a option" where
  "element [] i = None"
| "element (x # xs) 0 = Some x"
| "element (x # xs) (Suc i) = element xs i"

datatype TrackLocation = Local | Remote

record TrackObject =
  obj_trackName :: string
  obj_sessionId :: string
  obj_location :: TrackLocation

text \<open>
  The value \<open>trackObject\<close> computed by \<open>usePulledVideoTrack\<close> from its argument
  \<open>video\<close>:
  \<^verbatim>\<open>const [sessionId, trackName] = video?.split('/') ?? []\<close>
  \<^verbatim>\<open>sessionId && trackName ? { trackName, sessionId, location: 'remote' } : undefined\<close>
\<close>

definition trackObject :: "string option \<Rightarrow> TrackObject option" where
  "trackObject vid =
     (let parts = (case vid of None \<Rightarrow> [] | Some v \<Rightarrow> split (CHR ''/'') v);
          sid = element parts 0;
          tname = element parts 1
      in case (sid, tname) of
           (Some s, Some t) \<Rightarrow>
             (if s \<noteq> [] \<and> t \<noteq> []
              then Some \<lparr>obj_trackName = t, obj_sessionId = s, obj_location = Remote\<rparr>
              else None)
         | _ \<Rightarrow> None)"

section \<open>Feed reconciliation (routes/_room.$roomName.technician.tsx)\<close>

text \<open>
  The technician station logs to the console while it builds the feeds. The console is
  the only state the transformation touches; it is threaded through explicitly. An entry
  keeps the structured arguments of the \<open>console.log\<close> call.
\<close>

datatype LogEntry =
    HospitalUsersLog "(string \<times> string \<times> UserRole option \<times> nat \<times> CameraSlot list option) list"
  | CreatedFeedsLog string nat

type_synonym Console = "LogEntry list"

text \<open>\<^verbatim>\<open>const hospitalUsers = otherUsers.filter((u) => u.role === 'hospital')\<close>\<close>

definition hospitalUsers :: "User list \<Rightarrow> User list" where
  "hospitalUsers otherUsers = filter (\<lambda>u. role u = Some Hospital) otherUsers"

text \<open>Decimal rendering of a number inside a template literal.\<close>

definition digit :: "nat \<Rightarrow> char" where
  "digit d = ''0123456789'' ! d"

fun decimal :: "nat \<Rightarrow> string" where
  "decimal n = (if n < 10 then [digit n] else decimal (n div 10) @ [digit (n mod 10)])"

declare decimal.simps [simp del]

text \<open>
  The virtual user pushed for one camera (lines 191 to 208): the user's own fields,
  with \<open>id\<close>, \<open>name\<close> and \<open>tracks\<close> replaced.
\<close>

definition cameraFeed :: "User \<Rightarrow> CameraSlot \<Rightarrow> nat \<Rightarrow> User" where
  "cameraFeed user camera index =
     user\<lparr>user_id := user_id user @ ''-camera-'' @ deviceId camera,
          name := name user @ '' - Camera '' @ decimal (index + 1),
          tracks := (tracks user)\<lparr>video := trackName camera,
                                  videoEnabled := Some (enabled camera),
                                  screenshare := None,
                                  screenShareEnabled := Some False,
                                  cameras := None\<rparr>\<rparr>"

text \<open>
  \<open>user.tracks.cameras.forEach((camera, index) => ...)\<close>: the cameras still to
  visit, the index of the next one, and the array \<open>feeds\<close> built so far; \<open>push\<close>
  appends at the end.
\<close>

fun forEachCamera :: "User \<Rightarrow> CameraSlot list \<Rightarrow> nat \<Rightarrow> User list \<Rightarrow> User list" where
  "forEachCamera user [] index feeds = feeds"
| "forEachCamera user (camera # rest) index feeds =
     forEachCamera user rest (index + 1)
       (if truthy (trackName camera) \<and> enabled camera
        then feeds @ [cameraFeed user camera index]
        else feeds)"

text \<open>The virtual user pushed for the screen share (lines 220 to 234).\<close>

definition screenshareFeed :: "User \<Rightarrow> User" where
  "screenshareFeed user =
     user\<lparr>user_id := user_id user @ ''-screenshare'',
          name := name user @ '' - Screen'',
          tracks := (tracks user)\<lparr>video := screenshare (tracks user),
                                  videoEnabled := screenShareEnabled (tracks user),
                                  screenshare := None,
                                  screenShareEnabled := Some False,
                                  cameras := None\<rparr>\<rparr>"

text \<open>The callback given to \<open>flatMap\<close> (lines 178 to 240), for one hospital user.\<close>

definition feedsOfUser :: "User \<Rightarrow> Console \<Rightarrow> User list \<times> Console" where
  "feedsOfUser user console =
     (let feeds0 = [];
          feeds1 = (case cameras (tracks user) of
                      None \<Rightarrow> feeds0
                    | Some cs \<Rightarrow> if length cs > 0 then forEachCamera user cs 0 feeds0 else feeds0);
          feeds2 = (if truthy (screenshare (tracks user))
                    then feeds1 @ [screenshareFeed user]
                    else feeds1)
      in (feeds2, console @ [CreatedFeedsLog (name user) (length feeds2)]))"

text \<open>\<open>flatMap\<close>: the callback runs on each element in order, the arrays are joined.\<close>

fun flatMapFeeds :: "User list \<Rightarrow> Console \<Rightarrow> User list \<times> Console" where
  "flatMapFeeds [] console = ([], console)"
| "flatMapFeeds (user # rest) console =
     (case feedsOfUser user console of
        (feeds, console1) \<Rightarrow>
          (case flatMapFeeds rest console1 of
             (others, console2) \<Rightarrow> (feeds @ others, console2)))"

text \<open>
  The value \<open>hospitalFeeds\<close> of one render of the technician station, from the
  \<open>otherUsers\<close> of the room (every user of the room state but the viewer; the hook
  that computes it is taken as given) and the console before the render.
\<close>

definition hospitalFeeds :: "User list \<Rightarrow> Console \<Rightarrow> User list \<times> Console" where
  "hospitalFeeds otherUsers console =
     (let hs = hospitalUsers otherUsers;
          console1 = console @
            [HospitalUsersLog
               (map (\<lambda>u. (user_id u, name u, role u,
                           (case cameras (tracks u) of None \<Rightarrow> 0 | Some cs \<Rightarrow> length cs),
                           cameras (tracks u))) hs)]
      in flatMapFeeds hs console1)"

text \<open>
  The part of a virtual user that a video tile is made of: its id, the track it shows
  and whether that track is enabled.
\<close>

abbreviation feedView :: "User \<Rightarrow> string \<times> string option \<times> bool option" where
  "feedView f \<equiv> (user_id f, video (tracks f), videoEnabled (tracks f))"

section \<open>Broadcasting the user's status (hooks/useBroadcastStatus.ts)\<close>

typedecl ApiHistoryEntry

text \<open>The type \<open>ClientMessage\<close> of types/Messages.ts, one constructor per \<open>type\<close> tag.\<close>

datatype ClientMessage =
    UserUpdate User
  | DirectMessage string string
  | MuteUser string
  | UserLeft
  | PartyserverPing
  | Heartbeat
  | EnableAi "string option" "string option"
  | DisableAi
  | RequestAiControl TrackObject
  | RelenquishAiControl
  | CallsApiHistoryEntry ApiHistoryEntry "string option"
  | E2eeMlsMessage string

text \<open>
  What the hook reads: the media state, the session id of the peer connection, the
  identity, the pushed tracks and the flags of its configuration. Fields whose name a
  field of \<open>User\<close> or \<open>Tracks\<close> already has carry a prefix.
\<close>

record UserMedia =
  media_audioEnabled :: bool
  media_videoEnabled :: bool
  media_screenShareEnabled :: bool
  audioUnavailableReason :: "string option"

record PushedTracks =
  pushed_audio :: "string option"
  pushed_video :: "string option"
  pushed_screenshare :: "string option"

record Config =
  userMedia :: UserMedia
  sessionId :: "string option"
  identity :: "User option"
  pushedTracks :: PushedTracks
  config_raisedHand :: bool
  config_speaking :: bool
  config_role :: "UserRole option"

text \<open>
  The socket is the list of the messages sent on it so far; \<open>websocket.send\<close> appends
  one. The serialisation by \<open>JSON.stringify\<close> is left out: a message is the value sent.
\<close>

type_synonym PartySocket = "ClientMessage list"

text \<open>
  The callback of \<open>useUnmount\<close> (unnamed/part_001, lines 459 to 478). \<open>id\<close> and
  \<open>name\<close> are \<open>identity?.id\<close> and \<open>identity?.name\<close>; the guard \<open>id && name\<close>
  needs both to be non-empty strings. The \<open>user\<close> of the message has no \<open>role\<close>
  and its \<open>tracks\<close> has the single key \<open>audioUnavailable\<close>.
\<close>

definition onUnmount :: "Config \<Rightarrow> PartySocket \<Rightarrow> PartySocket" where
  "onUnmount config websocket =
     (let audioUnavailable' = (audioUnavailableReason (userMedia config) \<noteq> None);
          uid = map_option user_id (identity config);
          uname = map_option name (identity config)
      in case (uid, uname) of
           (Some i, Some n) \<Rightarrow>
             (if i \<noteq> [] \<and> n \<noteq> []
              then websocket @
                [UserUpdate
                   \<lparr>user_id = i, name = n,
                    transceiverSessionId = sessionId config,
                    raisedHand = config_raisedHand config,
                    speaking = config_speaking config,
                    joined = False,
                    role = None,
                    tracks = \<lparr>audio = None, audioEnabled = None,
                              audioUnavailable = audioUnavailable',
                              video = None, videoEnabled = None,
                              screenshare = None, screenShareEnabled = None,
                              cameras = None\<rparr>\<rparr>]
              else websocket)
         | _ \<Rightarrow> websocket)"

section \<open>Room Coordinator\<close>

text \<open>
  Modelled from the spec: the Room Coordinator (durableObjects/ChatRoom.server.ts) is
  not among the sources; only the message types and the clients that talk to it are.
  The errors an update can be rejected with. The specification names
  \<open>IdentityConflict\<close>; it gives no name to the rejection of an empty participant id,
  called \<open>EmptyParticipantId\<close> here.
\<close>

datatype CoordinatorError = IdentityConflict | EmptyParticipantId

text \<open>
  Modelled from the spec: a Connection Session, with its identity binding and its
  last-seen time.
\<close>

record Session =
  ownedId :: "string option"
  lastSeen :: nat

text \<open>
  Modelled from the spec: the RoomState owned by the Coordinator, \<open>{ meetingId: string?,
  participants: Participant[] (unique by id) }\<close>.
\<close>

record RoomState =
  meetingId :: "string option"
  participants :: "User list"

text \<open>
  Modelled from the spec: what one call of \<open>applyUpdate\<close> leaves behind: the error
  surfaced to the session, if any, the session, the room state, and whether a broadcast
  was scheduled.
\<close>

record Outcome =
  rejection :: "CoordinatorError option"
  session_after :: Session
  state_after :: RoomState
  broadcast_scheduled :: bool

text \<open>
  Modelled from the spec: "replaces the existing Participant with that id in RoomState
  wholesale (insert if absent)".
\<close>

fun replaceParticipant :: "User \<Rightarrow> User list \<Rightarrow> User list" where
  "replaceParticipant p [] = [p]"
| "replaceParticipant p (q # qs) =
     (if user_id q = user_id p then p # qs else q # replaceParticipant p qs)"

text \<open>
  Modelled from the spec: \<open>applyUpdate(session, participant)\<close> "validates
  participant.id is non-empty and, if the session already owns a different id, rejects
  the update with IdentityConflict. Otherwise binds session.ownedId = participant.id,
  replaces the existing Participant with that id in RoomState wholesale (insert if
  absent), and schedules a broadcast." A rejected update keeps the prior binding. The
  conflict is tested before the empty id, so that a session that owns a different id is
  always answered with \<open>IdentityConflict\<close>, as the sentence says.
\<close>

definition applyUpdate :: "Session \<Rightarrow> User \<Rightarrow> RoomState \<Rightarrow> Outcome" where
  "applyUpdate session participant state =
     (if (case ownedId session of None \<Rightarrow> False | Some owned \<Rightarrow> owned \<noteq> user_id participant)
      then \<lparr>rejection = Some IdentityConflict, session_after = session,
            state_after = state, broadcast_scheduled = False\<rparr>
      else if user_id participant = []
      then \<lparr>rejection = Some EmptyParticipantId, session_after = session,
            state_after = state, broadcast_scheduled = False\<rparr>
      else \<lparr>rejection = None,
            session_after = session\<lparr>ownedId := Some (user_id participant)\<rparr>,
            state_after = state\<lparr>participants := replaceParticipant participant (participants state)\<rparr>,
            broadcast_scheduled = True\<rparr>)"

section \<open>Example participants\<close>

definition hospital_h1 :: User where
  "hospital_h1 =
     \<lparr>user_id = ''h1'', name = ''Hospital A'', transceiverSessionId = Some ''s1'',
      raisedHand = False, speaking = False, joined = True, role = Some Hospital,
      tracks = \<lparr>audio = None, audioEnabled = Some False, audioUnavailable = False,
                video = None, videoEnabled = Some False,
                screenshare = Some ''s1/scr'', screenShareEnabled = Some True,
                cameras = Some [\<lparr>deviceId = ''d1'', trackName = Some ''s1/v1'', enabled = True\<rparr>,
                                \<lparr>deviceId = ''d2'', trackName = Some ''s1/v2'', enabled = False\<rparr>]\<rparr>\<rparr>"

definition hospital_h2 :: User where
  "hospital_h2 =
     \<lparr>user_id = ''h2'', name = ''Hospital B'', transceiverSessionId = Some ''s3'',
      raisedHand = False, speaking = False, joined = True, role = Some Hospital,
      tracks = \<lparr>audio = Some ''s3/audio-1'', audioEnabled = Some True, audioUnavailable = False,
                video = None, videoEnabled = Some False,
                screenshare = None, screenShareEnabled = Some False,
                cameras = Some [\<lparr>deviceId = ''d7'', trackName = Some ''s3/v1'', enabled = True\<rparr>,
                                \<lparr>deviceId = ''d8'', trackName = None, enabled = True\<rparr>,
                                \<lparr>deviceId = ''d9'', trackName = Some ''s3/v3'', enabled = True\<rparr>]\<rparr>\<rparr>"

definition technician_t1 :: User where
  "technician_t1 =
     \<lparr>user_id = ''t1'', name = ''Dr. Smith'', transceiverSessionId = Some ''s2'',
      raisedHand = False, speaking = False, joined = True, role = Some Technician,
      tracks = \<lparr>audio = Some ''s2/audio-1'', audioEnabled = Some True, audioUnavailable = False,
                video = Some ''s2/video-1'', videoEnabled = Some True,
                screenshare = None, screenShareEnabled = Some False,
                cameras = None\<rparr>\<rparr>"


section \<open>Properties of the track identifier\<close>

lemma split_from_takeWhile:
  "split_from sep cur s =
     (cur @ takeWhile (\<lambda>c. c \<noteq> sep) s) #
     (case dropWhile (\<lambda>c. c \<noteq> sep) s of [] \<Rightarrow> [] | _ # r \<Rightarrow> split_from sep [] r)"
  by (induction s arbitrary: cur) auto

text \<open>
  What the parser keeps of a token: the piece before the first separator and the piece
  between the first separator and the second (or the end). Everything after a second
  separator is dropped.
\<close>

lemma trackObject_parts:
  "trackObject (Some token) =
     (case dropWhile (\<lambda>c. c \<noteq> CHR ''/'') token of
        [] \<Rightarrow> None
      | _ # r \<Rightarrow>
          (if takeWhile (\<lambda>c. c \<noteq> CHR ''/'') token \<noteq> [] \<and> takeWhile (\<lambda>c. c \<noteq> CHR ''/'') r \<noteq> []
           then Some \<lparr>obj_trackName = takeWhile (\<lambda>c. c \<noteq> CHR ''/'') r,
                      obj_sessionId = takeWhile (\<lambda>c. c \<noteq> CHR ''/'') token,
                      obj_location = Remote\<rparr>
           else None))"
proof -
  have parts: "split (CHR ''/'') token =
      takeWhile (\<lambda>c. c \<noteq> CHR ''/'') token #
      (case dropWhile (\<lambda>c. c \<noteq> CHR ''/'') token of
         [] \<Rightarrow> []
       | _ # r \<Rightarrow> split_from (CHR ''/'') [] r)"
    unfolding split_def by (subst split_from_takeWhile) simp
  show ?thesis
  proof (cases "dropWhile (\<lambda>c. c \<noteq> CHR ''/'') token")
    case Nil
    have "split (CHR ''/'') token = [takeWhile (\<lambda>c. c \<noteq> CHR ''/'') token]"
      using parts unfolding Nil by simp
    then show ?thesis
      unfolding Nil by (simp add: trackObject_def)
  next
    case (Cons x r)
    have "split (CHR ''/'') token =
        takeWhile (\<lambda>c. c \<noteq> CHR ''/'') token # split_from (CHR ''/'') [] r"
      using parts unfolding Cons by simp
    then show ?thesis
      unfolding Cons by (subst (asm) split_from_takeWhile [of _ _ r]) (simp add: trackObject_def)
  qed
qed

lemma parts_one_sep:
  assumes "CHR ''/'' \<notin> set s"
  shows "dropWhile (\<lambda>c. c \<noteq> CHR ''/'') (s @ CHR ''/'' # r) = CHR ''/'' # r"
    and "takeWhile (\<lambda>c. c \<noteq> CHR ''/'') (s @ CHR ''/'' # r) = s"
  using assms by (induction s) auto

lemma parts_no_sep:
  assumes "CHR ''/'' \<notin> set s"
  shows "dropWhile (\<lambda>c. c \<noteq> CHR ''/'') s = []"
    and "takeWhile (\<lambda>c. c \<noteq> CHR ''/'') s = s"
  using assms by (induction s) auto

text \<open>
  C1 (round trip). For a session id and a track name that are both non-empty and
  free of the separator \<open>/\<close>, parsing the identifier built from them gives back
  exactly that session id and that track name.
\<close>

theorem trackObject_trackIdentifier_roundtrip:
  assumes "s \<noteq> []" and "t \<noteq> []"
    and "CHR ''/'' \<notin> set s" and "CHR ''/'' \<notin> set t"
  shows "trackObject (Some (trackIdentifier s t)) =
           Some \<lparr>obj_trackName = t, obj_sessionId = s, obj_location = Remote\<rparr>"
  using assms by (simp add: trackIdentifier_def trackObject_parts parts_one_sep parts_no_sep)

theorem trackObject_trackIdentifier_roundtrip_witness:
  "trackObject (Some (trackIdentifier ''session-abc'' ''video-1'')) =
     Some \<lparr>obj_trackName = ''video-1'', obj_sessionId = ''session-abc'', obj_location = Remote\<rparr>"
  using trackObject_trackIdentifier_roundtrip [of "''session-abc''" "''video-1''"]
  by simp

text \<open>
  C3, as the code has it. The parser cuts the token at every \<open>/\<close> and keeps the first
  two pieces. It gives no track object (\<open>undefined\<close>; there is no error value) when the
  token has no separator, and when one of the first two pieces is empty. A token with
  more than one separator is not refused: when its first two pieces are non-empty they
  are returned, and what follows the second separator is dropped.
\<close>

theorem trackObject_failure:
  "(CHR ''/'' \<notin> set token \<longrightarrow> trackObject (Some token) = None) \<and>
   (CHR ''/'' \<notin> set s \<and> CHR ''/'' \<notin> set t \<longrightarrow>
      trackObject (Some (s @ ''/'' @ t)) =
        (if s = [] \<or> t = [] then None
         else Some \<lparr>obj_trackName = t, obj_sessionId = s, obj_location = Remote\<rparr>) \<and>
      trackObject (Some (s @ ''/'' @ t @ ''/'' @ rest)) =
        (if s = [] \<or> t = [] then None
         else Some \<lparr>obj_trackName = t, obj_sessionId = s, obj_location = Remote\<rparr>))"
  by (auto simp add: trackObject_parts parts_one_sep parts_no_sep)

theorem trackObject_failure_witness:
  "trackObject (Some ''session-abc'') = None \<and>
   trackObject (Some ''session-abc/'') = None \<and>
   trackObject (Some ''/video-1'') = None \<and>
   trackObject (Some ''a/b'') =
     Some \<lparr>obj_trackName = ''b'', obj_sessionId = ''a'', obj_location = Remote\<rparr> \<and>
   trackObject (Some ''a/b/c/d'') =
     Some \<lparr>obj_trackName = ''b'', obj_sessionId = ''a'', obj_location = Remote\<rparr>"
  using trackObject_failure [of "''session-abc''" "''session-abc''" "[]" "[]"]
    trackObject_failure [of "[]" "[]" "''video-1''" "[]"]
    trackObject_failure [of "[]" "''a''" "''b''" "''c/d''"]
  by simp

text \<open>
  C3, as stated, fails: the token \<open>a/b/c\<close> has two separators and is parsed, without
  any failure, to the session id \<open>a\<close> and the track name \<open>b\<close>. The split is not at
  the first separator only (that would give the track name \<open>b/c\<close>), and the piece
  \<open>c\<close> is silently dropped.
\<close>

theorem trackObject_truncates_counterexample:
  "trackObject (Some ''a/b/c'') =
     Some \<lparr>obj_trackName = ''b'', obj_sessionId = ''a'', obj_location = Remote\<rparr>"
  by (simp add: trackObject_def split_def)




section \<open>Properties of the feed reconciliation\<close>

subsection \<open>The feeds as a function of the users\<close>

lemma fst_feedsOfUser_console: "fst (feedsOfUser u c) = fst (feedsOfUser u [])"
  by (simp add: feedsOfUser_def Let_def)

lemma fst_flatMapFeeds:
  "fst (flatMapFeeds us c) = concat (map (\<lambda>u. fst (feedsOfUser u [])) us)"
proof (induction us arbitrary: c)
  case Nil
  show ?case by simp
next
  case (Cons u us)
  obtain fs c1 where a: "feedsOfUser u c = (fs, c1)"
    by (cases "feedsOfUser u c")
  obtain gs c2 where b: "flatMapFeeds us c1 = (gs, c2)"
    by (cases "flatMapFeeds us c1")
  have "fs = fst (feedsOfUser u [])"
    using a fst_feedsOfUser_console [of u c] by simp
  moreover have "gs = concat (map (\<lambda>u. fst (feedsOfUser u [])) us)"
    using b Cons.IH [of c1] by simp
  ultimately show ?case
    using a b by simp
qed

lemma fst_hospitalFeeds:
  "fst (hospitalFeeds us c) = concat (map (\<lambda>u. fst (feedsOfUser u [])) (hospitalUsers us))"
  by (simp add: hospitalFeeds_def Let_def fst_flatMapFeeds)

lemma forEachCamera_ids:
  "map user_id (forEachCamera u cs i feeds) =
     map user_id feeds @
     map (\<lambda>c. user_id u @ ''-camera-'' @ deviceId c)
       (filter (\<lambda>c. truthy (trackName c) \<and> enabled c) cs)"
  by (induction cs arbitrary: i feeds) (simp_all add: cameraFeed_def)

lemma forEachCamera_view:
  "map feedView (forEachCamera u cs i feeds) =
     map feedView feeds @
     map (\<lambda>c. (user_id u @ ''-camera-'' @ deviceId c, trackName c, Some True))
       (filter (\<lambda>c. truthy (trackName c) \<and> enabled c) cs)"
  by (induction cs arbitrary: i feeds) (simp_all add: cameraFeed_def)

lemma feedsOfUser_view:
  "map feedView (fst (feedsOfUser u [])) =
     map (\<lambda>c. (user_id u @ ''-camera-'' @ deviceId c, trackName c, Some True))
       (filter (\<lambda>c. truthy (trackName c) \<and> enabled c)
          (case cameras (tracks u) of None \<Rightarrow> [] | Some cs \<Rightarrow> cs)) @
     (if truthy (screenshare (tracks u))
      then [(user_id u @ ''-screenshare'', screenshare (tracks u), screenShareEnabled (tracks u))]
      else [])"
  by (simp add: feedsOfUser_def Let_def forEachCamera_view screenshareFeed_def
      split: option.split)

lemma feedsOfUser_ids:
  "map user_id (fst (feedsOfUser u [])) =
     map (\<lambda>c. user_id u @ ''-camera-'' @ deviceId c)
       (filter (\<lambda>c. truthy (trackName c) \<and> enabled c)
          (case cameras (tracks u) of None \<Rightarrow> [] | Some cs \<Rightarrow> cs)) @
     (if truthy (screenshare (tracks u)) then [user_id u @ ''-screenshare''] else [])"
  by (simp add: feedsOfUser_def Let_def forEachCamera_ids screenshareFeed_def
      split: option.split)

subsection \<open>Multi-camera explosion\<close>

text \<open>
  C2. A hospital user whose \<open>cameras\<close> array is present contributes, at its place
  among the feeds, one feed for each camera that has a track identifier (a truthy
  \<open>trackName\<close>: present and not the empty string) and is enabled, with id
  \<open>id-camera-deviceId\<close> and the camera's track, and then, if its screen share track is
  present, one more feed with id \<open>id-screenshare\<close>, the screen share track, and
  \<open>screenShareEnabled\<close> as its enabled flag. The instance below is the participant
  \<open>h1\<close> with the cameras \<open>d1\<close> (enabled) and \<open>d2\<close> (disabled) and a screen share:
  exactly the two feeds \<open>h1-camera-d1\<close> and \<open>h1-screenshare\<close>.
\<close>

theorem hospital_user_feeds:
  assumes "role u = Some Hospital" and "cameras (tracks u) = Some cs"
  shows "map feedView (fst (hospitalFeeds (before @ u # after) console)) =
     map feedView (fst (hospitalFeeds before console)) @
     map (\<lambda>c. (user_id u @ ''-camera-'' @ deviceId c, trackName c, Some True))
       (filter (\<lambda>c. truthy (trackName c) \<and> enabled c) cs) @
     (if truthy (screenshare (tracks u))
      then [(user_id u @ ''-screenshare'', screenshare (tracks u), screenShareEnabled (tracks u))]
      else []) @
     map feedView (fst (hospitalFeeds after console))"
proof -
  have "hospitalUsers (before @ u # after) = hospitalUsers before @ u # hospitalUsers after"
    using assms(1) by (simp add: hospitalUsers_def)
  then show ?thesis
    using assms(2) by (simp add: fst_hospitalFeeds feedsOfUser_view)
qed

theorem hospital_user_feeds_witness:
  "map feedView (fst (hospitalFeeds [hospital_h1] [])) =
     [(''h1-camera-d1'', Some ''s1/v1'', Some True),
      (''h1-screenshare'', Some ''s1/scr'', Some True)]"
  using hospital_user_feeds [of hospital_h1 _ "[]" "[]" "[]"]
  by (simp add: hospital_h1_def truthy_def fst_hospitalFeeds hospitalUsers_def)

subsection \<open>Side effects and determinism\<close>

lemma snd_feedsOfUser:
  "snd (feedsOfUser u c) = c @ [CreatedFeedsLog (name u) (length (fst (feedsOfUser u [])))]"
  by (simp add: feedsOfUser_def Let_def)

lemma snd_flatMapFeeds:
  "snd (flatMapFeeds us c) =
     c @ map (\<lambda>u. CreatedFeedsLog (name u) (length (fst (feedsOfUser u [])))) us"
proof (induction us arbitrary: c)
  case Nil
  show ?case by simp
next
  case (Cons u us)
  obtain fs c1 where a: "feedsOfUser u c = (fs, c1)"
    by (cases "feedsOfUser u c")
  obtain gs c2 where b: "flatMapFeeds us c1 = (gs, c2)"
    by (cases "flatMapFeeds us c1")
  have "c1 = c @ [CreatedFeedsLog (name u) (length (fst (feedsOfUser u [])))]"
    using a snd_feedsOfUser [of u c] by simp
  moreover have "c2 = c1 @ map (\<lambda>u. CreatedFeedsLog (name u) (length (fst (feedsOfUser u [])))) us"
    using b Cons.IH [of c1] by simp
  ultimately show ?case
    using a b by simp
qed

lemma length_feedsOfUser:
  "length (fst (feedsOfUser u [])) =
     length (filter (\<lambda>c. truthy (trackName c) \<and> enabled c)
               (case cameras (tracks u) of None \<Rightarrow> [] | Some cs \<Rightarrow> cs)) +
     (if truthy (screenshare (tracks u)) then 1 else 0)"
proof -
  have "length (fst (feedsOfUser u [])) = length (map user_id (fst (feedsOfUser u [])))"
    by simp
  also have "\<dots> = length (filter (\<lambda>c. truthy (trackName c) \<and> enabled c)
               (case cameras (tracks u) of None \<Rightarrow> [] | Some cs \<Rightarrow> cs)) +
     (if truthy (screenshare (tracks u)) then 1 else 0)"
    unfolding feedsOfUser_ids by simp
  finally show ?thesis .
qed

text \<open>
  C4, as the code has it. Building the feeds is not free of side effects: every render
  appends to the console one entry that lists the hospital users and then, for each
  hospital user in order, one entry with the user's name and the number of its feeds.
  The console is written and never read, so the feeds that are returned depend on the
  users alone: two renders on the same users return the same feeds, with the same ids
  in the same order, whatever the console holds, also when the second render starts
  from the console that the first one left.
\<close>

theorem hospitalFeeds_console_effect:
  "snd (hospitalFeeds otherUsers console) =
     console @
     HospitalUsersLog
       (map (\<lambda>u. (user_id u, name u, role u,
                   (case cameras (tracks u) of None \<Rightarrow> 0 | Some cs \<Rightarrow> length cs),
                   cameras (tracks u)))
          (filter (\<lambda>u. role u = Some Hospital) otherUsers)) #
     map (\<lambda>u. CreatedFeedsLog (name u)
                (length (filter (\<lambda>c. truthy (trackName c) \<and> enabled c)
                           (case cameras (tracks u) of None \<Rightarrow> [] | Some cs \<Rightarrow> cs)) +
                 (if truthy (screenshare (tracks u)) then 1 else 0)))
       (filter (\<lambda>u. role u = Some Hospital) otherUsers) \<and>
   fst (hospitalFeeds otherUsers console) = fst (hospitalFeeds otherUsers console') \<and>
   fst (hospitalFeeds otherUsers (snd (hospitalFeeds otherUsers console))) =
     fst (hospitalFeeds otherUsers console)"
proof -
  have "snd (hospitalFeeds otherUsers console) =
     console @
     HospitalUsersLog
       (map (\<lambda>u. (user_id u, name u, role u,
                   (case cameras (tracks u) of None \<Rightarrow> 0 | Some cs \<Rightarrow> length cs),
                   cameras (tracks u)))
          (hospitalUsers otherUsers)) #
     map (\<lambda>u. CreatedFeedsLog (name u) (length (fst (feedsOfUser u []))))
       (hospitalUsers otherUsers)"
    by (simp add: hospitalFeeds_def Let_def snd_flatMapFeeds)
  then show ?thesis
    by (simp add: fst_hospitalFeeds length_feedsOfUser hospitalUsers_def)
qed

theorem hospitalFeeds_console_effect_witness:
  "snd (hospitalFeeds [hospital_h2, technician_t1, hospital_h1] [CreatedFeedsLog ''earlier'' 0]) =
     [CreatedFeedsLog ''earlier'' 0,
      HospitalUsersLog
        [(''h2'', ''Hospital B'', Some Hospital, 3, cameras (tracks hospital_h2)),
         (''h1'', ''Hospital A'', Some Hospital, 2, cameras (tracks hospital_h1))],
      CreatedFeedsLog ''Hospital B'' 2,
      CreatedFeedsLog ''Hospital A'' 2] \<and>
   fst (hospitalFeeds [hospital_h2, technician_t1, hospital_h1] [CreatedFeedsLog ''earlier'' 0]) =
     fst (hospitalFeeds [hospital_h2, technician_t1, hospital_h1] [])"
  using hospitalFeeds_console_effect
    [of "[hospital_h2, technician_t1, hospital_h1]" "[CreatedFeedsLog ''earlier'' 0]" "[]"]
  by (simp add: hospital_h1_def hospital_h2_def technician_t1_def truthy_def)

text \<open>
  C4, as stated, fails: the transformation is not a pure function of the room state.
  A render on the room that holds the hospital user \<open>h1\<close>, started on an empty
  console, leaves two entries on it.
\<close>

theorem hospitalFeeds_side_effect_counterexample:
  "snd (hospitalFeeds [hospital_h1] []) =
     [HospitalUsersLog
        [(''h1'', ''Hospital A'', Some Hospital, 2,
          Some [\<lparr>deviceId = ''d1'', trackName = Some ''s1/v1'', enabled = True\<rparr>,
                \<lparr>deviceId = ''d2'', trackName = Some ''s1/v2'', enabled = False\<rparr>])],
      CreatedFeedsLog ''Hospital A'' 2] \<and>
   snd (hospitalFeeds [hospital_h1] []) \<noteq> []"
  by (simp add: hospital_h1_def truthy_def hospitalFeeds_def hospitalUsers_def
      feedsOfUser_def Let_def)

subsection \<open>Order of the feeds\<close>

text \<open>
  C5. The feeds come grouped by user, in the order of the hospital users among
  \<open>otherUsers\<close>; within one user the camera feeds come in the order of the \<open>cameras\<close>
  array, and the screen share feed comes last.
\<close>

theorem hospitalFeeds_order:
  "map user_id (fst (hospitalFeeds otherUsers console)) =
     concat (map (\<lambda>u.
        map (\<lambda>c. user_id u @ ''-camera-'' @ deviceId c)
          (filter (\<lambda>c. truthy (trackName c) \<and> enabled c)
             (case cameras (tracks u) of None \<Rightarrow> [] | Some cs \<Rightarrow> cs)) @
        (if truthy (screenshare (tracks u)) then [user_id u @ ''-screenshare''] else []))
       (filter (\<lambda>u. role u = Some Hospital) otherUsers))"
  by (simp add: fst_hospitalFeeds hospitalUsers_def map_concat comp_def feedsOfUser_ids)

theorem hospitalFeeds_order_witness:
  "map user_id (fst (hospitalFeeds [hospital_h2, technician_t1, hospital_h1] [])) =
     [''h2-camera-d7'', ''h2-camera-d9'', ''h1-camera-d1'', ''h1-screenshare'']"
  using hospitalFeeds_order [of "[hospital_h2, technician_t1, hospital_h1]" "[]"]
  by (simp add: hospital_h1_def hospital_h2_def technician_t1_def truthy_def)

subsection \<open>Users that are not hospital stations\<close>

text \<open>
  C6, as the code has it. The technician station keeps the hospital users only: a user
  whose role is not \<open>hospital\<close> contributes no feed at all, whether or not it has a
  \<open>video\<close> track. The feeds are those of the room without that user.
\<close>

theorem non_hospital_user_no_feed:
  assumes "role u \<noteq> Some Hospital"
  shows "fst (hospitalFeeds (before @ u # after) console) =
           fst (hospitalFeeds (before @ after) console)"
  using assms by (simp add: fst_hospitalFeeds hospitalUsers_def)

theorem non_hospital_user_no_feed_witness:
  "fst (hospitalFeeds [hospital_h1, technician_t1] []) = fst (hospitalFeeds [hospital_h1] [])"
  using non_hospital_user_no_feed [of technician_t1 "[hospital_h1]" "[]" "[]"]
  by (simp add: technician_t1_def)

text \<open>
  C6, as stated, fails: the technician \<open>t1\<close> has a \<open>video\<close> track and a role other
  than \<open>hospital\<close>, and a render on the room that holds it gives no feed, so none with
  the id \<open>t1\<close>.
\<close>

theorem singular_video_counterexample:
  "role technician_t1 \<noteq> Some Hospital \<and> truthy (video (tracks technician_t1)) \<and>
   fst (hospitalFeeds [technician_t1] []) = []"
  by (simp add: technician_t1_def truthy_def hospitalFeeds_def hospitalUsers_def)

subsection \<open>Feeds are not expanded twice\<close>

lemma forEachCamera_cleared:
  assumes "\<forall>f \<in> set feeds. cameras (tracks f) = None \<and> screenshare (tracks f) = None"
  shows "\<forall>f \<in> set (forEachCamera u cs i feeds).
           cameras (tracks f) = None \<and> screenshare (tracks f) = None"
  using assms
proof (induction cs arbitrary: i feeds)
  case Nil
  then show ?case by simp
next
  case (Cons c cs)
  have "\<forall>f \<in> set (feeds @ [cameraFeed u c i]).
          cameras (tracks f) = None \<and> screenshare (tracks f) = None"
    using Cons.prems by (simp add: cameraFeed_def)
  from Cons.IH [OF this] Cons.IH [OF Cons.prems] show ?case by simp
qed

lemma feedsOfUser_cleared:
  "\<forall>f \<in> set (fst (feedsOfUser u [])). cameras (tracks f) = None \<and> screenshare (tracks f) = None"
proof -
  have "\<forall>f \<in> set (forEachCamera u cs 0 []).
          cameras (tracks f) = None \<and> screenshare (tracks f) = None" for cs
    by (rule forEachCamera_cleared) simp
  then show ?thesis
    by (auto simp add: feedsOfUser_def Let_def screenshareFeed_def split: option.split)
qed

lemma feedsOfUser_nothing:
  assumes "cameras (tracks u) = None" and "screenshare (tracks u) = None"
  shows "fst (feedsOfUser u []) = []"
  using assms by (simp add: feedsOfUser_def truthy_def)

lemma hospitalFeeds_cleared:
  "\<forall>f \<in> set (fst (hospitalFeeds us c)). cameras (tracks f) = None \<and> screenshare (tracks f) = None"
  using feedsOfUser_cleared by (auto simp add: fst_hospitalFeeds)

lemma hospitalFeeds_nothing:
  assumes "\<forall>u \<in> set us. cameras (tracks u) = None \<and> screenshare (tracks u) = None"
  shows "fst (hospitalFeeds us c) = []"
  using assms by (simp add: fst_hospitalFeeds hospitalUsers_def feedsOfUser_nothing)

text \<open>
  C9. Every virtual user that the technician station builds has \<open>tracks.cameras\<close>
  and \<open>tracks.screenshare\<close> undefined, so building feeds from the feeds gives nothing:
  no feed is expanded a second time.
\<close>

theorem feeds_not_expandable:
  "(\<forall>f \<in> set (fst (hospitalFeeds otherUsers console)).
      cameras (tracks f) = None \<and> screenshare (tracks f) = None) \<and>
   fst (hospitalFeeds (fst (hospitalFeeds otherUsers console)) console') = []"
  using hospitalFeeds_cleared [of otherUsers console]
  by (simp add: hospitalFeeds_nothing)

theorem feeds_not_expandable_witness:
  "length (fst (hospitalFeeds [hospital_h1] [])) = 2 \<and>
   map (\<lambda>f. (cameras (tracks f), screenshare (tracks f))) (fst (hospitalFeeds [hospital_h1] [])) =
     [(None, None), (None, None)] \<and>
   fst (hospitalFeeds (fst (hospitalFeeds [hospital_h1] [])) []) = []"
  using feeds_not_expandable [of "[hospital_h1]" "[]" "[]"]
  by (simp add: hospital_h1_def truthy_def hospitalFeeds_def hospitalUsers_def
      feedsOfUser_def cameraFeed_def screenshareFeed_def)

section \<open>Properties of the status broadcast\<close>

text \<open>
  C10. When the hook is torn down and the identity is known (its id and its name are
  non-empty strings), one message is sent, a \<open>userUpdate\<close> and not a \<open>userLeft\<close>: its
  user has \<open>joined\<close> false and no role, and its tracks carry the \<open>audioUnavailable\<close>
  flag and no track identifier and no other flag.
\<close>

theorem unmount_sends_userUpdate:
  assumes "identity config = Some ident" and "user_id ident \<noteq> []" and "name ident \<noteq> []"
  shows "onUnmount config websocket = websocket @
     [UserUpdate
        \<lparr>user_id = user_id ident, name = name ident,
         transceiverSessionId = sessionId config,
         raisedHand = config_raisedHand config,
         speaking = config_speaking config,
         joined = False, role = None,
         tracks = \<lparr>audio = None, audioEnabled = None,
                   audioUnavailable = (audioUnavailableReason (userMedia config) \<noteq> None),
                   video = None, videoEnabled = None,
                   screenshare = None, screenShareEnabled = None, cameras = None\<rparr>\<rparr>] \<and>
     last (onUnmount config websocket) \<noteq> UserLeft"
  using assms by (simp add: onUnmount_def)

theorem unmount_sends_userUpdate_witness:
  "onUnmount
     \<lparr>userMedia = \<lparr>media_audioEnabled = True, media_videoEnabled = True,
                   media_screenShareEnabled = False, audioUnavailableReason = None\<rparr>,
      sessionId = Some ''s2'', identity = Some technician_t1,
      pushedTracks = \<lparr>pushed_audio = Some ''s2/audio-1'', pushed_video = Some ''s2/video-1'',
                      pushed_screenshare = None\<rparr>,
      config_raisedHand = False, config_speaking = True,
      config_role = Some Technician\<rparr> [Heartbeat] =
   [Heartbeat,
    UserUpdate
      \<lparr>user_id = ''t1'', name = ''Dr. Smith'', transceiverSessionId = Some ''s2'',
       raisedHand = False, speaking = True, joined = False, role = None,
       tracks = \<lparr>audio = None, audioEnabled = None, audioUnavailable = False,
                 video = None, videoEnabled = None,
                 screenshare = None, screenShareEnabled = None, cameras = None\<rparr>\<rparr>]"
  using unmount_sends_userUpdate
    [of "\<lparr>userMedia = \<lparr>media_audioEnabled = True, media_videoEnabled = True,
                   media_screenShareEnabled = False, audioUnavailableReason = None\<rparr>,
      sessionId = Some ''s2'', identity = Some technician_t1,
      pushedTracks = \<lparr>pushed_audio = Some ''s2/audio-1'', pushed_video = Some ''s2/video-1'',
                      pushed_screenshare = None\<rparr>,
      config_raisedHand = False, config_speaking = True,
      config_role = Some Technician\<rparr>" technician_t1 "[Heartbeat]"]
  by (simp add: technician_t1_def)

section \<open>Properties of the Room Coordinator\<close>

text \<open>
  C8. When a session is already bound to a participant id, an update whose participant
  id differs from it is rejected with \<open>IdentityConflict\<close>: the session keeps its
  binding, the room state after the update is the room state before it, and no
  broadcast is scheduled.
\<close>

theorem applyUpdate_identity_conflict:
  assumes "ownedId session = Some bound" and "user_id participant \<noteq> bound"
  shows "applyUpdate session participant state =
           \<lparr>rejection = Some IdentityConflict, session_after = session,
            state_after = state, broadcast_scheduled = False\<rparr> \<and>
         ownedId (session_after (applyUpdate session participant state)) = Some bound"
  using assms by (auto simp add: applyUpdate_def)

theorem applyUpdate_identity_conflict_witness:
  "applyUpdate \<lparr>ownedId = Some ''t1'', lastSeen = 0\<rparr> hospital_h1
     \<lparr>meetingId = None, participants = [technician_t1]\<rparr> =
   \<lparr>rejection = Some IdentityConflict,
    session_after = \<lparr>ownedId = Some ''t1'', lastSeen = 0\<rparr>,
    state_after = \<lparr>meetingId = None, participants = [technician_t1]\<rparr>,
    broadcast_scheduled = False\<rparr>"
  using applyUpdate_identity_conflict
    [of "\<lparr>ownedId = Some ''t1'', lastSeen = 0\<rparr>" "''t1''" hospital_h1
        "\<lparr>meetingId = None, participants = [technician_t1]\<rparr>"]
  by (simp add: hospital_h1_def)

end
